theory Spec2Isabelle
  imports Complex_Main
begin

section \<open>Data model of the Menu plugin\<close>

text \<open>
  The embedding follows \<^verbatim>\<open>packages/g6/src/plugin/widget/menu/index.ts\<close>.
  JavaScript values are modelled as follows.
  \<^item> An optional string (\<^verbatim>\<open>e.itemId\<close>, \<^verbatim>\<open>e.itemType\<close>, \<^verbatim>\<open>this.currentTarget\<close>) is a
    \<open>string option\<close>, \<open>None\<close> being \<^verbatim>\<open>undefined\<close>. The declaration of the identifier
    type is not part of this file; identifiers are taken to be strings, for which the loose
    comparison \<^verbatim>\<open>!=\<close> of the source is plain inequality.
  \<^item> A value of type \<^verbatim>\<open>HTMLElement | string\<close> is a \<open>markup\<close>; an element is represented by
    its \<^verbatim>\<open>outerHTML\<close>, the only thing the plugin reads from it.
  \<^item> Numbers (pixel coordinates and sizes) are the values of a type \<open>'n\<close> of which only
    \<open>0\<close>, \<open>1\<close>, \<open>+\<close>, \<open>-\<close> and \<open><\<close> are used and no law is assumed. The operations are
    applied in the order in which the source applies them, so that what is proved holds for
    the double-precision arithmetic of JavaScript (rounding, \<^verbatim>\<open>NaN\<close>, signed zero,
    infinities) as for exact arithmetic. The concrete runs use the real numbers.
  \<^item> A function object created by the plugin (a listener closure) is a natural number,
    fresh at its creation, so that \<^verbatim>\<open>removeEventListener\<close> can compare by identity.
\<close>

datatype visibility = Hidden | Visible

datatype trigger = Click | Contextmenu

datatype markup = Str string | Element string

datatype content = Sync markup | Deferred

datatype error = TypeError | NotFoundError

datatype outcome = Returned | Suspended | Threw error

type_synonym elem = nat

datatype container_opt = NoContainer | ById string | ByElement elem

datatype call = PreventDefault | ShouldBegin | GetContent | HandleMenuClick "string option" | OnHide

record 'n event =
  itemId :: "string option"
  itemType :: "string option"
  viewport_x :: 'n
  viewport_y :: 'n
  preventDefault :: bool

text \<open>
  The options of the plugin (\<^verbatim>\<open>MenuConfig\<close>). The callbacks \<^verbatim>\<open>getContent\<close> and
  \<^verbatim>\<open>shouldBegin\<close> are functions of the event; \<^verbatim>\<open>handleMenuClick\<close> records whether a
  callback is configured; every invocation of a callback is logged in the field \<open>calls\<close> of
  the state. The value a deferred content resolves to is chosen by the environment when the
  promise settles. The option \<^verbatim>\<open>className\<close>, which only enters the markup handed to
  \<^verbatim>\<open>createDOM\<close>, is not represented.
\<close>

record 'n config =
  handleMenuClick :: bool
  getContent :: "'n event \<Rightarrow> content"
  offsetX :: "'n option"
  offsetY :: "'n option"
  shouldBegin :: "'n event \<Rightarrow> bool"
  itemTypes :: "string list"
  trigger :: trigger
  onHide :: "unit \<Rightarrow> bool"
  loadingContent :: markup
  container :: container_opt

text \<open>
  What the host graph and the document answer when the plugin asks: \<^verbatim>\<open>graph.getSize()\<close>,
  \<^verbatim>\<open>menuDom.getBoundingClientRect()\<close>, the offsets of \<^verbatim>\<open>graph.container\<close>, the container
  itself and \<^verbatim>\<open>document.getElementById\<close>.
\<close>

record 'n host =
  graph_width :: 'n
  graph_height :: 'n
  bbox_width :: 'n
  bbox_height :: 'n
  offsetTop :: 'n
  offsetLeft :: 'n
  graph_container :: elem
  getElementById :: "string \<Rightarrow> elem option"

text \<open>
  The overlay element: the inline style written by \<^verbatim>\<open>modifyCSS\<close> (lengths in pixels), its
  markup, its click listeners (closure identity and the item identifier the closure captured)
  and the element it is a child of.
\<close>

record 'n overlay =
  style_top :: 'n
  style_left :: "'n option"
  style_visibility :: visibility
  innerHTML :: string
  click_listeners :: "(nat \<times> string option) list"
  parentNode :: "elem option"

text \<open>
  The private fields of the \<^verbatim>\<open>Menu\<close> instance, followed by the part of the environment the
  instance acts on: the click listeners it has attached to \<^verbatim>\<open>document.body\<close> (closure identity
  and the closure's variable \<^verbatim>\<open>triggeredByFirstClick\<close>), the supply of closure identities, the
  log of callback invocations, and the events of the show-handler invocations suspended at
  their \<^verbatim>\<open>await\<close>.
\<close>

record 'n state =
  menu :: "'n overlay option"
  handleMenuClickWrapper :: "nat option"
  handler :: "nat option"
  currentTarget :: "string option"
  asyncMenu :: "markup option"
  body_listeners :: "(nat \<times> bool) list"
  next_closure :: nat
  calls :: "call list"
  pending :: "'n event list"

section \<open>JavaScript primitives\<close>

definition truthy :: "string option \<Rightarrow> bool" where
  "truthy v = (case v of None \<Rightarrow> False | Some s \<Rightarrow> s \<noteq> [])"

definition truthy_markup :: "markup option \<Rightarrow> bool" where
  "truthy_markup v = (case v of None \<Rightarrow> False | Some (Str s) \<Rightarrow> s \<noteq> [] | Some (Element h) \<Rightarrow> True)"

fun indexOf :: "'a list \<Rightarrow> 'a \<Rightarrow> int" where
  "indexOf [] x = - 1"
| "indexOf (y # ys) x =
     (if y = x then 0 else (let r = indexOf ys x in if r = - 1 then - 1 else r + 1))"

text \<open>\<^verbatim>\<open>isString(v) ? v : v.outerHTML\<close>\<close>

fun html_of :: "markup \<Rightarrow> string" where
  "html_of (Str s) = s"
| "html_of (Element h) = h"

text \<open>
  A number is falsy when it is \<^verbatim>\<open>0\<close>, \<^verbatim>\<open>-0\<close> or \<^verbatim>\<open>NaN\<close>: these are the numbers that are
  neither below nor above \<^verbatim>\<open>0\<close>.
\<close>

definition falsy_number :: "'n::{zero,ord} \<Rightarrow> bool" where
  "falsy_number r \<longleftrightarrow> \<not> r < 0 \<and> \<not> 0 < r"

text \<open>\<^verbatim>\<open>v || 0\<close> on an optional number\<close>

definition or_zero :: "('n::{zero,ord}) option \<Rightarrow> 'n" where
  "or_zero v = (case v of None \<Rightarrow> 0 | Some r \<Rightarrow> if falsy_number r then 0 else r)"

text \<open>
  A literal for a natural number, such as the \<^verbatim>\<open>55\<close> of line 170: the number reached from
  \<open>0\<close> by adding \<open>1\<close> that many times (exact in double precision far beyond 55).
\<close>

primrec number_literal :: "nat \<Rightarrow> 'n::{zero,one,plus}" where
  "number_literal 0 = 0"
| "number_literal (Suc k) = number_literal k + 1"

section \<open>The operations of the plugin\<close>

text \<open>
  Container resolution, written out twice in the source (in \<^verbatim>\<open>init\<close> and in \<^verbatim>\<open>destroy\<close>):
  a falsy option (\<^verbatim>\<open>null\<close> or the empty string) means the graph's container; a string is
  looked up by id, and the lookup may answer \<^verbatim>\<open>null\<close> (\<open>None\<close>).
\<close>

definition resolveContainer :: "'n config \<Rightarrow> 'n host \<Rightarrow> elem option" where
  "resolveContainer cfg h =
     (let c = (case container cfg of
                 NoContainer \<Rightarrow> ByElement (graph_container h)
               | ById s \<Rightarrow> if s = [] then ByElement (graph_container h) else ById s
               | ByElement el \<Rightarrow> ByElement el)
      in case c of
           ById s \<Rightarrow> getElementById h s
         | ByElement el \<Rightarrow> Some el
         | NoContainer \<Rightarrow> None)"

definition blank :: "'n state" where
  "blank = \<lparr> menu = None, handleMenuClickWrapper = None, handler = None,
             currentTarget = None, asyncMenu = None, body_listeners = [],
             next_closure = 0, calls = [], pending = [] \<rparr>"

definition init :: "('n::zero) config \<Rightarrow> 'n host \<Rightarrow> 'n state \<Rightarrow> outcome \<times> 'n state" where
  "init cfg h s =
     (let m = \<lparr> style_top = 0, style_left = None, style_visibility = Hidden,
                innerHTML = [], click_listeners = [], parentNode = None \<rparr>
      in case resolveContainer cfg h of
           None \<Rightarrow> (Threw TypeError, s)
         | Some c \<Rightarrow> (Returned, s\<lparr> menu := Some (m\<lparr> parentNode := Some c \<rparr>) \<rparr>))"

text \<open>The names of the graph events bound to the show handler.\<close>

definition getEvents :: "'n config \<Rightarrow> string list" where
  "getEvents cfg =
     (if trigger cfg = Click then [''click'', ''touchend''] else [''contextmenu''])"

definition removeMenuEventListener :: "'n state \<Rightarrow> outcome \<times> 'n state" where
  "removeMenuEventListener s =
     (case (case handleMenuClickWrapper s of
              None \<Rightarrow> (Returned, s)
            | Some w \<Rightarrow>
                (case menu s of
                   None \<Rightarrow> (Threw TypeError, s)
                 | Some m \<Rightarrow>
                     (Returned,
                      s\<lparr> menu := Some (m\<lparr> click_listeners :=
                                            filter (\<lambda>l. fst l \<noteq> w) (click_listeners m) \<rparr>),
                         handleMenuClickWrapper := None \<rparr>)))
      of
        (Threw err, s1) \<Rightarrow> (Threw err, s1)
      | (_, s1) \<Rightarrow>
          (case handler s1 of
             None \<Rightarrow> (Returned, s1)
           | Some k \<Rightarrow>
               (Returned,
                s1\<lparr> body_listeners := filter (\<lambda>l. fst l \<noteq> k) (body_listeners s1) \<rparr>)))"

definition onMenuHide :: "'n state \<Rightarrow> outcome \<times> 'n state" where
  "onMenuHide s =
     (case menu s of
        None \<Rightarrow> (Returned, s)
      | Some m \<Rightarrow>
          removeMenuEventListener (s\<lparr> menu := Some (m\<lparr> style_visibility := Hidden \<rparr>) \<rparr>))"

text \<open>
  Lines 144 to 154: the item-type filter. Both branches that block do the same
  (\<^verbatim>\<open>this.onMenuHide(); return\<close>).
\<close>

definition blockedByItemType :: "'n config \<Rightarrow> 'n event \<Rightarrow> bool" where
  "blockedByItemType cfg e =
     (if \<not> truthy (itemId e) then indexOf (itemTypes cfg) ''canvas'' = - 1
      else truthy (itemId e) \<and>
           (case itemType e of
              None \<Rightarrow> False
            | Some t \<Rightarrow> t \<noteq> [] \<and> indexOf (itemTypes cfg) t = - 1))"

text \<open>
  Lines 211 to 231, entered after an assignment to \<^verbatim>\<open>menuDom.innerHTML\<close>: the markup is
  injected, the listeners on record are detached, and a click listener on the overlay (when a
  click callback is configured) and a click listener on \<^verbatim>\<open>document.body\<close> are attached and
  recorded.
\<close>

definition injectAndAttach ::
  "'n config \<Rightarrow> 'n event \<Rightarrow> string \<Rightarrow> 'n state \<Rightarrow> outcome \<times> 'n state" where
  "injectAndAttach cfg e html s =
     (case menu s of
        None \<Rightarrow> (Threw TypeError, s)
      | Some m \<Rightarrow>
          (case removeMenuEventListener (s\<lparr> menu := Some (m\<lparr> innerHTML := html \<rparr>) \<rparr>) of
             (Threw err, s1) \<Rightarrow> (Threw err, s1)
           | (_, s1) \<Rightarrow>
               (let s2 = (if handleMenuClick cfg
                          then s1\<lparr> handleMenuClickWrapper := Some (next_closure s1),
                                   menu := map_option
                                     (\<lambda>m1. m1\<lparr> click_listeners :=
                                          click_listeners m1 @ [(next_closure s1, itemId e)] \<rparr>)
                                     (menu s1),
                                   next_closure := Suc (next_closure s1) \<rparr>
                          else s1);
                    k = next_closure s2
                in (Returned,
                    s2\<lparr> body_listeners := body_listeners s2 @ [(k, trigger cfg = Click)],
                        handler := Some k,
                        next_closure := Suc k \<rparr>))))"

text \<open>
  Lines 201 to 210 and what follows them: the staleness test on the target, then the
  injection of \<^verbatim>\<open>this.asyncMenu\<close>.
\<close>

definition renderAsync :: "'n config \<Rightarrow> 'n event \<Rightarrow> 'n state \<Rightarrow> outcome \<times> 'n state" where
  "renderAsync cfg e s =
     (if itemId e \<noteq> currentTarget s then (Returned, s)
      else case asyncMenu s of
             None \<Rightarrow> (Threw TypeError, s)
           | Some v \<Rightarrow> injectAndAttach cfg e (html_of v) s)"

text \<open>
  The show handler up to its first suspension. The outcome \<open>Suspended\<close> means that the
  handler has reached \<^verbatim>\<open>await this.options.getContent(e)\<close> on line 199, after the second
  call of the content provider; it continues in \<open>onMenuShow_resume\<close>.
\<close>

definition onMenuShow ::
  "('n::{zero,one,plus,minus,ord}) config \<Rightarrow> 'n host \<Rightarrow> 'n event \<Rightarrow> 'n state
     \<Rightarrow> outcome \<times> 'n state" where
  "onMenuShow cfg h e s0 =
     (let s1 = (if preventDefault e then s0\<lparr> calls := calls s0 @ [PreventDefault] \<rparr> else s0)
      in case onMenuHide s1 of
           (Threw err, s2) \<Rightarrow> (Threw err, s2)
         | (_, s2) \<Rightarrow>
             if blockedByItemType cfg e then onMenuHide s2
             else
               (let s3 = s2\<lparr> calls := calls s2 @ [ShouldBegin] \<rparr>
                in if \<not> shouldBegin cfg e then (Returned, s3)
                   else
                     (let s4 = s3\<lparr> calls := calls s3 @ [GetContent] \<rparr>
                      in case menu s4 of
                           None \<Rightarrow> (Threw TypeError, s4)
                         | Some m \<Rightarrow>
                             (let width = graph_width h;
                                  height = graph_height h;
                                  ox = or_zero (offsetX cfg);
                                  oy = or_zero (offsetY cfg);
                                  graphTop = offsetTop h;
                                  graphLeft = offsetLeft h;
                                  x = viewport_x e + graphLeft + ox;
                                  y = viewport_y e + graphTop + oy - number_literal 55;
                                  x' = (if x + bbox_width h > width
                                        then x - (bbox_width h + graphLeft + ox) else x);
                                  y' = (if y + bbox_height h > height
                                        then y - (bbox_height h + graphTop + oy) else y);
                                  s5 = s4\<lparr> menu := Some (m\<lparr> style_top := y',
                                                             style_left := Some x',
                                                             style_visibility := Visible \<rparr>) \<rparr>
                              in case getContent cfg e of
                                   Sync (Str str) \<Rightarrow> injectAndAttach cfg e str s5
                                 | Sync (Element el) \<Rightarrow> injectAndAttach cfg e el s5
                                 | Deferred \<Rightarrow>
                                     (let s6 = s5\<lparr> menu := map_option
                                                     (\<lambda>m1. m1\<lparr> innerHTML :=
                                                          html_of (loadingContent cfg) \<rparr>)
                                                     (menu s5) \<rparr>
                                      in if itemId e \<noteq> currentTarget s6
                                            \<or> \<not> truthy_markup (asyncMenu s6)
                                         then (Suspended,
                                               s6\<lparr> currentTarget := itemId e,
                                                   calls := calls s6 @ [GetContent] \<rparr>)
                                         else renderAsync cfg e s6)))))"

text \<open>
  The continuation of the show handler when the awaited promise is fulfilled with \<open>v\<close>:
  the assignment to \<^verbatim>\<open>this.asyncMenu\<close> on line 199, then lines 201 and following.
\<close>

definition onMenuShow_resume ::
  "'n config \<Rightarrow> 'n event \<Rightarrow> markup \<Rightarrow> 'n state \<Rightarrow> outcome \<times> 'n state" where
  "onMenuShow_resume cfg e v s = renderAsync cfg e (s\<lparr> asyncMenu := Some v \<rparr>)"

definition destroy :: "'n config \<Rightarrow> 'n host \<Rightarrow> 'n state \<Rightarrow> outcome \<times> 'n state" where
  "destroy cfg h s =
     (case removeMenuEventListener s of
        (Threw err, s1) \<Rightarrow> (Threw err, s1)
      | (_, s1) \<Rightarrow>
          (case menu s1 of
             None \<Rightarrow> (Returned, s1)
           | Some m \<Rightarrow>
               (case resolveContainer cfg h of
                  None \<Rightarrow> (Threw TypeError, s1)
                | Some c \<Rightarrow>
                    if parentNode m = Some c
                    then (Returned, s1\<lparr> menu := Some (m\<lparr> parentNode := None \<rparr>) \<rparr>)
                    else (Threw NotFoundError, s1))))"

section \<open>The event loop around the plugin\<close>

text \<open>
  A click on \<^verbatim>\<open>document.body\<close> runs the listeners that were attached when the dispatch
  began and are still attached when their turn comes. The listener of lines 222 to 228
  swallows its first event when the trigger is \<^verbatim>\<open>click\<close> and hides the menu otherwise.
\<close>

fun fire_handlers :: "nat list \<Rightarrow> 'n state \<Rightarrow> 'n state" where
  "fire_handlers [] s = s"
| "fire_handlers (i # js) s =
     fire_handlers js
       (case map_of (body_listeners s) i of
          None \<Rightarrow> s
        | Some first \<Rightarrow>
            if first
            then s\<lparr> body_listeners :=
                      map (\<lambda>l. if fst l = i then (i, False) else l) (body_listeners s) \<rparr>
            else snd (onMenuHide s))"

definition body_click :: "'n state \<Rightarrow> 'n state" where
  "body_click s = fire_handlers (map fst (body_listeners s)) s"

text \<open>
  A click on the overlay runs the wrappers of line 215, each of which forwards the item
  identifier it captured to the configured click callback.
\<close>

definition overlay_click :: "'n state \<Rightarrow> 'n state" where
  "overlay_click s =
     (case menu s of
        None \<Rightarrow> s
      | Some m \<Rightarrow> s\<lparr> calls := calls s @ map (\<lambda>l. HandleMenuClick (snd l)) (click_listeners m) \<rparr>)"

text \<open>
  What can happen to an initialised instance: a trigger event reaches the show handler; the
  promise awaited by the \<open>i\<close>-th suspended invocation is fulfilled or rejected; the user
  clicks on the document or on the overlay; the plugin is destroyed.
\<close>

datatype 'n action =
    Show "'n host" "'n event"
  | Resolve nat markup
  | Reject nat
  | BodyClick
  | OverlayClick
  | Destroy "'n host"

definition drop_nth :: "nat \<Rightarrow> 'a list \<Rightarrow> 'a list" where
  "drop_nth i xs = take i xs @ drop (Suc i) xs"

fun step ::
  "('n::{zero,one,plus,minus,ord}) config \<Rightarrow> 'n action \<Rightarrow> 'n state \<Rightarrow> 'n state" where
  "step cfg (Show h e) s =
     (case onMenuShow cfg h e s of
        (Suspended, s') \<Rightarrow> s'\<lparr> pending := pending s' @ [e] \<rparr>
      | (_, s') \<Rightarrow> s')"
| "step cfg (Resolve i v) s =
     (if i < length (pending s)
      then snd (onMenuShow_resume cfg (pending s ! i) v (s\<lparr> pending := drop_nth i (pending s) \<rparr>))
      else s)"
| "step cfg (Reject i) s =
     (if i < length (pending s) then s\<lparr> pending := drop_nth i (pending s) \<rparr> else s)"
| "step cfg BodyClick s = body_click s"
| "step cfg OverlayClick s = overlay_click s"
| "step cfg (Destroy h) s = snd (destroy cfg h s)"

fun run ::
  "('n::{zero,one,plus,minus,ord}) config \<Rightarrow> 'n action list \<Rightarrow> 'n state \<Rightarrow> 'n state" where
  "run cfg [] s = s"
| "run cfg (a # as) s = run cfg as (step cfg a s)"


section \<open>Vocabulary of the properties\<close>

text \<open>The menu is displayed when the overlay exists and its visibility is \<^verbatim>\<open>visible\<close>.\<close>

definition displayed :: "'n state \<Rightarrow> bool" where
  "displayed s = (case menu s of None \<Rightarrow> False | Some m \<Rightarrow> style_visibility m = Visible)"

text \<open>
  Every listener the instance has attached is the one on record in \<^verbatim>\<open>this.handler\<close>, or in
  \<^verbatim>\<open>this.handleMenuClickWrapper\<close> for the overlay, and there is at most one of each.
\<close>

definition tracked :: "'n state \<Rightarrow> bool" where
  "tracked s \<longleftrightarrow>
     length (body_listeners s) \<le> 1 \<and>
     (\<forall>l \<in> set (body_listeners s). handler s = Some (fst l)) \<and>
     (case menu s of
        None \<Rightarrow> handleMenuClickWrapper s = None
      | Some m \<Rightarrow>
          length (click_listeners m) \<le> 1 \<and>
          (\<forall>l \<in> set (click_listeners m). handleMenuClickWrapper s = Some (fst l)))"

text \<open>What \<^verbatim>\<open>removeEventListener\<close> leaves of a listener list, given the closure on record.\<close>

definition without :: "nat option \<Rightarrow> (nat \<times> 'a) list \<Rightarrow> (nat \<times> 'a) list" where
  "without k xs = (case k of None \<Rightarrow> xs | Some w \<Rightarrow> filter (\<lambda>l. fst l \<noteq> w) xs)"

text \<open>
  Concrete inputs, used to run the model. The options are the defaults of
  \<^verbatim>\<open>getDefaultCfgs\<close> for the offsets, the predicate, the item types, the trigger and the
  container, with a click callback configured and short markup strings.
\<close>

definition example_cfg :: "real config" where
  "example_cfg =
     \<lparr> handleMenuClick = True,
       getContent = (\<lambda>e. Sync (Str ''<ul><li>one</li></ul>'')),
       offsetX = Some 6, offsetY = Some 6,
       shouldBegin = (\<lambda>e. True),
       itemTypes = [''node'', ''edge'', ''combo''],
       trigger = Click,
       onHide = (\<lambda>u. True),
       loadingContent = Str ''<div>loading</div>'',
       container = NoContainer \<rparr>"

definition deferred_cfg :: "real config" where
  "deferred_cfg = example_cfg\<lparr> getContent := (\<lambda>e. Deferred) \<rparr>"

definition example_host :: "real host" where
  "example_host =
     \<lparr> graph_width = 500, graph_height = 500, bbox_width = 100, bbox_height = 40,
       offsetTop = 20, offsetLeft = 10, graph_container = 7,
       getElementById = (\<lambda>i. None) \<rparr>"

definition node_a :: "real event" where
  "node_a = \<lparr> itemId = Some ''a'', itemType = Some ''node'',
              viewport_x = 450, viewport_y = 100, preventDefault = True \<rparr>"

definition node_b :: "real event" where
  "node_b = \<lparr> itemId = Some ''b'', itemType = Some ''node'',
              viewport_x = 30, viewport_y = 490, preventDefault = True \<rparr>"

definition canvas_ev :: "real event" where
  "canvas_ev = \<lparr> itemId = None, itemType = Some ''canvas'',
                 viewport_x = 200, viewport_y = 200, preventDefault = False \<rparr>"

definition ready :: "real state" where
  "ready = snd (init example_cfg example_host blank)"

definition never_cfg :: "real config" where
  "never_cfg = example_cfg\<lparr> itemTypes := [''canvas''], shouldBegin := (\<lambda>e. False) \<rparr>"

section \<open>Auxiliary lemmas\<close>

lemma indexOf_ge: "- 1 \<le> indexOf xs x"
  by (induction xs) (auto simp: Let_def)

lemma indexOf_absent: "indexOf xs x = - 1 \<longleftrightarrow> x \<notin> set xs"
proof (induction xs)
  case Nil
  show ?case by simp
next
  case (Cons y ys)
  have "- 1 \<le> indexOf ys x" by (rule indexOf_ge)
  with Cons show ?case by (auto simp: Let_def)
qed

subsection \<open>removeMenuEventListener\<close>

lemma rm_fst [simp]:
  "menu s \<noteq> None \<or> handleMenuClickWrapper s = None \<Longrightarrow> fst (removeMenuEventListener s) = Returned"
  by (auto simp: removeMenuEventListener_def split: option.splits)

lemma rm_menu [simp]:
  "menu (snd (removeMenuEventListener s)) =
     map_option (\<lambda>m. m\<lparr> click_listeners := without (handleMenuClickWrapper s) (click_listeners m) \<rparr>)
       (menu s)"
  by (cases "menu s") (auto simp: removeMenuEventListener_def without_def split: option.splits)

lemma rm_body [simp]:
  "menu s \<noteq> None \<or> handleMenuClickWrapper s = None \<Longrightarrow>
   body_listeners (snd (removeMenuEventListener s)) = without (handler s) (body_listeners s)"
  by (auto simp: removeMenuEventListener_def without_def split: option.splits)

lemma rm_wrapper [simp]:
  "menu s \<noteq> None \<or> handleMenuClickWrapper s = None \<Longrightarrow>
   handleMenuClickWrapper (snd (removeMenuEventListener s)) = None"
  by (auto simp: removeMenuEventListener_def split: option.splits)

lemma rm_frame [simp]:
  "handler (snd (removeMenuEventListener s)) = handler s"
  "currentTarget (snd (removeMenuEventListener s)) = currentTarget s"
  "asyncMenu (snd (removeMenuEventListener s)) = asyncMenu s"
  "next_closure (snd (removeMenuEventListener s)) = next_closure s"
  "calls (snd (removeMenuEventListener s)) = calls s"
  "pending (snd (removeMenuEventListener s)) = pending s"
  by (auto simp: removeMenuEventListener_def split: option.splits)

subsection \<open>onMenuHide\<close>

lemma hide_fst [simp]: "fst (onMenuHide s) = Returned"
  by (simp add: onMenuHide_def split: option.splits)

lemma hide_menu [simp]:
  "menu (snd (onMenuHide s)) =
     map_option (\<lambda>m. m\<lparr> style_visibility := Hidden,
                        click_listeners := without (handleMenuClickWrapper s) (click_listeners m) \<rparr>)
       (menu s)"
  by (simp add: onMenuHide_def split: option.splits)

lemma hide_body [simp]:
  "body_listeners (snd (onMenuHide s)) =
     (if menu s = None then body_listeners s else without (handler s) (body_listeners s))"
  by (simp add: onMenuHide_def split: option.splits)

lemma hide_wrapper [simp]:
  "handleMenuClickWrapper (snd (onMenuHide s)) =
     (if menu s = None then handleMenuClickWrapper s else None)"
  by (simp add: onMenuHide_def split: option.splits)

lemma hide_frame [simp]:
  "handler (snd (onMenuHide s)) = handler s"
  "currentTarget (snd (onMenuHide s)) = currentTarget s"
  "asyncMenu (snd (onMenuHide s)) = asyncMenu s"
  "next_closure (snd (onMenuHide s)) = next_closure s"
  "calls (snd (onMenuHide s)) = calls s"
  "pending (snd (onMenuHide s)) = pending s"
  by (simp_all add: onMenuHide_def split: option.splits)

subsection \<open>injectAndAttach\<close>

lemma inject_none: "menu s = None \<Longrightarrow> injectAndAttach cfg e html s = (Threw TypeError, s)"
  by (simp add: injectAndAttach_def)

lemma inject_fst [simp]: "menu s \<noteq> None \<Longrightarrow> fst (injectAndAttach cfg e html s) = Returned"
  by (auto simp: injectAndAttach_def Let_def case_prod_beta split: outcome.splits)

lemma inject_menu [simp]:
  "menu (snd (injectAndAttach cfg e html s)) =
     map_option (\<lambda>m. m\<lparr> innerHTML := html,
                        click_listeners := without (handleMenuClickWrapper s) (click_listeners m)
                          @ (if handleMenuClick cfg then [(next_closure s, itemId e)] else []) \<rparr>)
       (menu s)"
  by (auto simp: injectAndAttach_def Let_def case_prod_beta split: outcome.splits option.splits)

lemma inject_body [simp]:
  "menu s \<noteq> None \<Longrightarrow>
   body_listeners (snd (injectAndAttach cfg e html s)) =
     without (handler s) (body_listeners s)
       @ [(if handleMenuClick cfg then Suc (next_closure s) else next_closure s, trigger cfg = Click)]"
  by (auto simp: injectAndAttach_def Let_def case_prod_beta split: outcome.splits)

lemma inject_handler [simp]:
  "menu s \<noteq> None \<Longrightarrow>
   handler (snd (injectAndAttach cfg e html s)) =
     Some (if handleMenuClick cfg then Suc (next_closure s) else next_closure s)"
  by (auto simp: injectAndAttach_def Let_def case_prod_beta split: outcome.splits)

lemma inject_wrapper [simp]:
  "menu s \<noteq> None \<Longrightarrow>
   handleMenuClickWrapper (snd (injectAndAttach cfg e html s)) =
     (if handleMenuClick cfg then Some (next_closure s) else None)"
  by (auto simp: injectAndAttach_def Let_def case_prod_beta split: outcome.splits)

lemma inject_frame [simp]:
  "currentTarget (snd (injectAndAttach cfg e html s)) = currentTarget s"
  "asyncMenu (snd (injectAndAttach cfg e html s)) = asyncMenu s"
  "calls (snd (injectAndAttach cfg e html s)) = calls s"
  "pending (snd (injectAndAttach cfg e html s)) = pending s"
  by (auto simp: injectAndAttach_def Let_def case_prod_beta split: outcome.splits option.splits)


subsection \<open>renderAsync\<close>

lemma renderAsync_stale: "itemId e \<noteq> currentTarget s \<Longrightarrow> renderAsync cfg e s = (Returned, s)"
  by (simp add: renderAsync_def)

lemma renderAsync_fresh:
  "itemId e = currentTarget s \<Longrightarrow> asyncMenu s = Some v \<Longrightarrow>
   renderAsync cfg e s = injectAndAttach cfg e (html_of v) s"
  by (simp add: renderAsync_def)

lemma renderAsync_frame [simp]:
  "currentTarget (snd (renderAsync cfg e s)) = currentTarget s"
  "asyncMenu (snd (renderAsync cfg e s)) = asyncMenu s"
  "calls (snd (renderAsync cfg e s)) = calls s"
  "pending (snd (renderAsync cfg e s)) = pending s"
  by (simp_all add: renderAsync_def split: option.splits)

subsection \<open>Attached listeners are the ones on record\<close>

lemma without_tracked: "\<forall>l \<in> set xs. k = Some (fst l) \<Longrightarrow> without k xs = []"
  by (cases k; cases xs) (auto simp: without_def filter_empty_conv)

lemma tracked_frame [simp]:
  "tracked (s\<lparr> calls := c \<rparr>) = tracked s"
  "tracked (s\<lparr> currentTarget := t \<rparr>) = tracked s"
  "tracked (s\<lparr> asyncMenu := a \<rparr>) = tracked s"
  "tracked (s\<lparr> pending := p \<rparr>) = tracked s"
  by (simp_all add: tracked_def split: option.splits)

lemma tracked_restyle:
  "tracked s \<Longrightarrow> menu s = Some m0 \<Longrightarrow> click_listeners m' = click_listeners m0 \<Longrightarrow>
   tracked (s\<lparr> menu := Some m' \<rparr>)"
  by (simp add: tracked_def split: option.splits)

lemma tracked_rm: "tracked s \<Longrightarrow> tracked (snd (removeMenuEventListener s))"
  by (cases "menu s") (auto simp: tracked_def without_tracked split: option.splits)

lemma tracked_hide: "tracked s \<Longrightarrow> tracked (snd (onMenuHide s))"
  by (cases "menu s") (auto simp: tracked_def without_tracked split: option.splits)

lemma tracked_inject: "tracked s \<Longrightarrow> tracked (snd (injectAndAttach cfg e html s))"
  by (cases "menu s") (auto simp: tracked_def without_tracked inject_none split: option.splits)

lemma tracked_renderAsync: "tracked s \<Longrightarrow> tracked (snd (renderAsync cfg e s))"
  by (auto simp: renderAsync_def tracked_inject split: option.splits)

lemma tracked_show: "tracked s \<Longrightarrow> tracked (snd (onMenuShow cfg h e s))"
  by (auto simp: onMenuShow_def Let_def case_prod_beta
      intro!: tracked_hide tracked_inject tracked_renderAsync tracked_restyle
      split: option.splits content.splits markup.splits)

subsection \<open>The invariant along the event loop\<close>

lemma tracked_resume: "tracked s \<Longrightarrow> tracked (snd (onMenuShow_resume cfg e v s))"
  by (simp add: onMenuShow_resume_def tracked_renderAsync)

lemma tracked_reflag:
  "tracked s \<Longrightarrow>
   tracked (s\<lparr> body_listeners := map (\<lambda>l. if fst l = i then (i, False) else l) (body_listeners s) \<rparr>)"
  by (auto simp: tracked_def split: option.splits if_splits)

lemma tracked_fire: "tracked s \<Longrightarrow> tracked (fire_handlers js s)"
proof (induction js arbitrary: s)
  case Nil
  then show ?case by simp
next
  case (Cons i js)
  have "tracked (case map_of (body_listeners s) i of
          None \<Rightarrow> s
        | Some first \<Rightarrow>
            if first
            then s\<lparr> body_listeners :=
                      map (\<lambda>l. if fst l = i then (i, False) else l) (body_listeners s) \<rparr>
            else snd (onMenuHide s))"
    using Cons.prems by (auto split: option.splits intro: tracked_reflag tracked_hide)
  then show ?case by (simp add: Cons.IH)
qed

lemma tracked_body_click: "tracked s \<Longrightarrow> tracked (body_click s)"
  by (simp add: body_click_def tracked_fire)

lemma tracked_overlay_click: "tracked s \<Longrightarrow> tracked (overlay_click s)"
  by (simp add: overlay_click_def split: option.splits)

lemma tracked_destroy: "tracked s \<Longrightarrow> tracked (snd (destroy cfg h s))"
  by (auto simp: destroy_def case_prod_beta
      intro!: tracked_rm tracked_restyle
      split: option.splits outcome.splits)

lemma tracked_step: "tracked s \<Longrightarrow> tracked (step cfg a s)"
proof (cases a)
  case (Show h e)
  moreover assume "tracked s"
  ultimately show ?thesis
    using tracked_show [of s cfg h e]
    by (auto split: prod.splits outcome.splits)
next
  case (Resolve i v)
  moreover assume "tracked s"
  ultimately show ?thesis by (simp add: tracked_resume)
next
  case (Reject i)
  moreover assume "tracked s"
  ultimately show ?thesis by simp
next
  case BodyClick
  moreover assume "tracked s"
  ultimately show ?thesis by (simp add: tracked_body_click)
next
  case OverlayClick
  moreover assume "tracked s"
  ultimately show ?thesis by (simp add: tracked_overlay_click)
next
  case (Destroy h)
  moreover assume "tracked s"
  ultimately show ?thesis by (simp add: tracked_destroy)
qed

lemma tracked_run: "tracked s \<Longrightarrow> tracked (run cfg acts s)"
  by (induction acts arbitrary: s) (simp_all add: tracked_step)

lemma tracked_init: "tracked (snd (init cfg h blank))"
  by (simp add: init_def blank_def tracked_def Let_def split: option.splits)

lemma init_menu: "fst (init cfg h blank) = Returned \<Longrightarrow> menu (snd (init cfg h blank)) \<noteq> None"
  by (simp add: init_def Let_def split: option.splits)

subsection \<open>The overlay stays\<close>

lemma show_menu: "menu s \<noteq> None \<Longrightarrow> menu (snd (onMenuShow cfg h e s)) \<noteq> None"
  by (auto simp: onMenuShow_def Let_def case_prod_beta renderAsync_def
      split: option.splits content.splits markup.splits)

lemma fire_menu: "menu s \<noteq> None \<Longrightarrow> menu (fire_handlers js s) \<noteq> None"
  by (induction js arbitrary: s) (auto split: option.splits)

lemma destroy_menu: "menu s \<noteq> None \<Longrightarrow> menu (snd (destroy cfg h s)) \<noteq> None"
  by (auto simp: destroy_def case_prod_beta split: option.splits outcome.splits)

lemma step_menu: "menu s \<noteq> None \<Longrightarrow> menu (step cfg a s) \<noteq> None"
proof (cases a)
  case (Show h e)
  moreover assume "menu s \<noteq> None"
  ultimately show ?thesis
    using show_menu [of s cfg h e]
    by (auto split: prod.splits outcome.splits)
next
  case (Resolve i v)
  moreover assume "menu s \<noteq> None"
  ultimately show ?thesis
    by (auto simp: onMenuShow_resume_def renderAsync_def split: option.splits)
next
  case (Reject i)
  moreover assume "menu s \<noteq> None"
  ultimately show ?thesis by simp
next
  case BodyClick
  moreover assume "menu s \<noteq> None"
  ultimately show ?thesis by (simp add: body_click_def fire_menu)
next
  case OverlayClick
  moreover assume "menu s \<noteq> None"
  ultimately show ?thesis by (auto simp: overlay_click_def)
next
  case (Destroy h)
  moreover assume "menu s \<noteq> None"
  ultimately show ?thesis by (simp add: destroy_menu)
qed

lemma run_menu: "menu s \<noteq> None \<Longrightarrow> menu (run cfg acts s) \<noteq> None"
proof (induction acts arbitrary: s)
  case Nil
  then show ?case by simp
next
  case (Cons a acts)
  from Cons.prems have "menu (step cfg a s) \<noteq> None" by (rule step_menu)
  then have "menu (run cfg acts (step cfg a s)) \<noteq> None" by (rule Cons.IH)
  then show ?case by simp
qed

subsection \<open>The show handler\<close>

lemma show_displayed:
  "menu s \<noteq> None \<Longrightarrow>
   displayed (snd (onMenuShow cfg h e s)) \<longleftrightarrow> \<not> blockedByItemType cfg e \<and> shouldBegin cfg e"
  by (auto simp: onMenuShow_def Let_def case_prod_beta renderAsync_def displayed_def
      split: option.splits content.splits markup.splits)

lemma show_markup:
  "menu s \<noteq> None \<Longrightarrow> \<not> blockedByItemType cfg e \<Longrightarrow> shouldBegin cfg e \<Longrightarrow>
   map_option innerHTML (menu (snd (onMenuShow cfg h e s))) =
     Some (case getContent cfg e of
             Sync c \<Rightarrow> html_of c
           | Deferred \<Rightarrow>
               (case asyncMenu s of
                  None \<Rightarrow> html_of (loadingContent cfg)
                | Some v \<Rightarrow>
                    if itemId e \<noteq> currentTarget s \<or> \<not> truthy_markup (asyncMenu s)
                    then html_of (loadingContent cfg) else html_of v))"
  by (auto simp: onMenuShow_def Let_def case_prod_beta renderAsync_def truthy_markup_def
      split: option.splits content.splits markup.splits)

lemma show_position:
  "menu s \<noteq> None \<Longrightarrow> \<not> blockedByItemType cfg e \<Longrightarrow> shouldBegin cfg e \<Longrightarrow>
   map_option style_left (menu (snd (onMenuShow cfg h e s))) =
     Some (Some (if viewport_x e + offsetLeft h + or_zero (offsetX cfg) + bbox_width h
                      > graph_width h
                 then viewport_x e + offsetLeft h + or_zero (offsetX cfg)
                      - (bbox_width h + offsetLeft h + or_zero (offsetX cfg))
                 else viewport_x e + offsetLeft h + or_zero (offsetX cfg))) \<and>
   map_option style_top (menu (snd (onMenuShow cfg h e s))) =
     Some (if viewport_y e + offsetTop h + or_zero (offsetY cfg) - number_literal 55 + bbox_height h
                > graph_height h
           then viewport_y e + offsetTop h + or_zero (offsetY cfg) - number_literal 55
                - (bbox_height h + offsetTop h + or_zero (offsetY cfg))
           else viewport_y e + offsetTop h + or_zero (offsetY cfg) - number_literal 55)"
  by (auto simp: onMenuShow_def Let_def case_prod_beta renderAsync_def
      split: option.splits content.splits markup.splits)

lemmas eval_ready = ready_def init_def resolveContainer_def blank_def Let_def
  example_cfg_def deferred_cfg_def example_host_def node_a_def node_b_def canvas_ev_def

lemmas eval_ops = removeMenuEventListener_def onMenuHide_def blockedByItemType_def
  injectAndAttach_def renderAsync_def onMenuShow_def onMenuShow_resume_def destroy_def
  body_click_def overlay_click_def drop_nth_def truthy_def truthy_markup_def or_zero_def
  falsy_number_def

lemma number_literal_real [simp]: "(number_literal k :: real) = of_nat k"
  by (induction k) simp_all

lemma or_zero_configured:
  "ox = (case v of None \<Rightarrow> 0 | Some r \<Rightarrow> if r < 0 \<or> 0 < r then r else 0) \<Longrightarrow> or_zero v = ox"
  by (auto simp: or_zero_def falsy_number_def split: option.splits)

lemma ready_menu: "menu ready \<noteq> None"
  by (simp add: eval_ready)

subsection \<open>Listener counts\<close>

lemma without_Nil [simp]: "without k [] = []"
  by (simp add: without_def split: option.splits)

lemma tracked_body [simp]: "tracked s \<Longrightarrow> without (handler s) (body_listeners s) = []"
  by (rule without_tracked) (simp add: tracked_def)

lemma tracked_clicks [simp]:
  "tracked s \<Longrightarrow> menu s = Some m \<Longrightarrow> without (handleMenuClickWrapper s) (click_listeners m) = []"
  by (rule without_tracked) (simp add: tracked_def)

lemma run_append: "run cfg (xs @ ys) s = run cfg ys (run cfg xs s)"
  by (induction xs arbitrary: s) simp_all

lemma step_show_body:
  "body_listeners (step cfg (Show h e) s) = body_listeners (snd (onMenuShow cfg h e s))"
  by (simp split: prod.splits outcome.splits)

lemma step_show_menu:
  "menu (step cfg (Show h e) s) = menu (snd (onMenuShow cfg h e s))"
  by (simp split: prod.splits outcome.splits)

lemma show_body_blocked:
  "tracked s \<Longrightarrow> menu s \<noteq> None \<Longrightarrow> blockedByItemType cfg e \<or> \<not> shouldBegin cfg e \<Longrightarrow>
   body_listeners (snd (onMenuShow cfg h e s)) = []"
  by (auto simp: onMenuShow_def Let_def case_prod_beta)

lemma show_body_sync:
  "tracked s \<Longrightarrow> menu s \<noteq> None \<Longrightarrow> \<not> blockedByItemType cfg e \<Longrightarrow> shouldBegin cfg e \<Longrightarrow>
   getContent cfg e \<noteq> Deferred \<Longrightarrow>
   length (body_listeners (snd (onMenuShow cfg h e s))) = 1"
  by (auto simp: onMenuShow_def Let_def case_prod_beta
      split: content.splits markup.splits)

lemma show_suspended:
  "tracked s \<Longrightarrow> menu s \<noteq> None \<Longrightarrow> fst (onMenuShow cfg h e s) = Suspended \<Longrightarrow>
   body_listeners (snd (onMenuShow cfg h e s)) = [] \<and>
   map_option click_listeners (menu (snd (onMenuShow cfg h e s))) = Some [] \<and>
   map_option innerHTML (menu (snd (onMenuShow cfg h e s))) = Some (html_of (loadingContent cfg)) \<and>
   displayed (snd (onMenuShow cfg h e s))"
  by (auto simp: onMenuShow_def Let_def case_prod_beta renderAsync_def displayed_def
      split: content.splits markup.splits option.splits if_splits)

lemma reachable_tracked: "tracked (run cfg acts (snd (init cfg h0 blank)))"
  by (rule tracked_run) (rule tracked_init)

lemma reachable_menu:
  "fst (init cfg h0 blank) = Returned \<Longrightarrow> menu (run cfg acts (snd (init cfg h0 blank))) \<noteq> None"
  by (rule run_menu) (rule init_menu)

lemma destroy_clean:
  "tracked s \<Longrightarrow> menu s \<noteq> None \<Longrightarrow> fst (destroy cfg h s) = Returned \<Longrightarrow>
   resolveContainer cfg h \<noteq> None \<and>
   map_option parentNode (menu s) = Some (resolveContainer cfg h) \<and>
   map_option parentNode (menu (snd (destroy cfg h s))) = Some None \<and>
   map_option click_listeners (menu (snd (destroy cfg h s))) = Some [] \<and>
   body_listeners (snd (destroy cfg h s)) = []"
  by (auto simp: destroy_def case_prod_beta split: option.splits if_splits)

subsection \<open>The log of callback invocations\<close>

lemma count_handle [simp]: "count_list (map (\<lambda>l. HandleMenuClick (snd l)) xs) OnHide = 0"
  by (induction xs) simp_all

lemma show_calls:
  "count_list (calls (snd (onMenuShow cfg h e s))) OnHide = count_list (calls s) OnHide"
  by (auto simp: onMenuShow_def Let_def case_prod_beta
      split: content.splits markup.splits option.splits)

lemma resume_calls:
  "calls (snd (onMenuShow_resume cfg e v s)) = calls s"
  by (simp add: onMenuShow_resume_def)

lemma destroy_calls: "calls (snd (destroy cfg h s)) = calls s"
  by (auto simp: destroy_def case_prod_beta split: option.splits outcome.splits)

lemma fire_calls: "calls (fire_handlers js s) = calls s"
  by (induction js arbitrary: s) (auto split: option.splits)

lemma step_calls: "count_list (calls (step cfg a s)) OnHide = count_list (calls s) OnHide"
proof (cases a)
  case (Show h e)
  then show ?thesis
    using show_calls [of cfg h e s] by (auto split: prod.splits outcome.splits)
next
  case (Resolve i v)
  then show ?thesis by (simp add: resume_calls)
next
  case (Reject i)
  then show ?thesis by simp
next
  case BodyClick
  then show ?thesis by (simp add: body_click_def fire_calls)
next
  case OverlayClick
  then show ?thesis by (simp add: overlay_click_def split: option.splits)
next
  case (Destroy h)
  then show ?thesis by (simp add: destroy_calls)
qed

lemma run_calls: "count_list (calls (run cfg acts s)) OnHide = count_list (calls s) OnHide"
  by (induction acts arbitrary: s) (simp_all add: step_calls)

section \<open>The claims\<close>

text \<open>
  C2. For a trigger event that carries an item identifier and an item type \<open>T\<close> (both
  truthy, as the handler tests them), handled by an initialised instance, the menu is
  displayed when the handler returns or suspends if and only if \<open>T\<close> is among the
  configured item types and the display predicate holds of the event. When it is displayed,
  the overlay holds content: the provider's string or element markup, or, for deferred
  content, the loading placeholder (or the cached result when the target is unchanged).
\<close>

theorem typed_item_display_iff:
  assumes "menu s \<noteq> None" and "truthy (itemId e)" and "itemType e = Some T" and "T \<noteq> []"
  shows "(displayed (snd (onMenuShow cfg h e s))
            \<longleftrightarrow> T \<in> set (itemTypes cfg) \<and> shouldBegin cfg e) \<and>
         (displayed (snd (onMenuShow cfg h e s)) \<longrightarrow>
            map_option innerHTML (menu (snd (onMenuShow cfg h e s))) =
              Some (case getContent cfg e of
                      Sync c \<Rightarrow> html_of c
                    | Deferred \<Rightarrow>
                        (case asyncMenu s of
                           None \<Rightarrow> html_of (loadingContent cfg)
                         | Some v \<Rightarrow>
                             if itemId e \<noteq> currentTarget s \<or> \<not> truthy_markup (asyncMenu s)
                             then html_of (loadingContent cfg) else html_of v)))"
proof -
  have gate: "displayed (snd (onMenuShow cfg h e s))
                \<longleftrightarrow> \<not> blockedByItemType cfg e \<and> shouldBegin cfg e"
    using assms(1) by (rule show_displayed)
  have filt: "blockedByItemType cfg e \<longleftrightarrow> T \<notin> set (itemTypes cfg)"
    using assms(2-4) by (simp add: blockedByItemType_def indexOf_absent)
  show ?thesis
    using gate filt show_markup [OF assms(1), of cfg e h] by blast
qed

theorem typed_item_display_iff_witness:
  "menu ready \<noteq> None \<and> truthy (itemId node_a) \<and> itemType node_a = Some ''node'' \<and>
   ''node'' \<noteq> [] \<and>
   displayed (snd (onMenuShow example_cfg example_host node_a ready)) \<and>
   map_option innerHTML (menu (snd (onMenuShow example_cfg example_host node_a ready))) =
     Some ''<ul><li>one</li></ul>''"
  using typed_item_display_iff [of ready node_a "''node''" example_cfg example_host]
  by (simp add: eval_ready truthy_def)

text \<open>
  C3, as stated, fails: with \<^verbatim>\<open>'canvas'\<close> among the item types and a display predicate
  that refuses, an event without item identifier does not display the menu.
\<close>

theorem canvas_display_counterexample:
  "\<not> truthy (itemId canvas_ev) \<and>
   \<not> (displayed (snd (onMenuShow never_cfg example_host canvas_ev ready))
        \<longleftrightarrow> ''canvas'' \<in> set (itemTypes never_cfg))"
  by (simp add: show_displayed ready_menu never_cfg_def example_cfg_def canvas_ev_def truthy_def)

text \<open>
  C3, amended. For a trigger event that carries no item identifier, handled by an
  initialised instance, the menu is displayed if and only if \<^verbatim>\<open>'canvas'\<close> is among the
  configured item types and the display predicate holds of the event.
\<close>

theorem canvas_display_iff:
  assumes "menu s \<noteq> None" and "\<not> truthy (itemId e)"
  shows "displayed (snd (onMenuShow cfg h e s))
           \<longleftrightarrow> ''canvas'' \<in> set (itemTypes cfg) \<and> shouldBegin cfg e"
  using assms by (simp add: show_displayed blockedByItemType_def indexOf_absent)

theorem canvas_display_iff_witness:
  "menu ready \<noteq> None \<and> \<not> truthy (itemId canvas_ev) \<and>
   \<not> displayed (snd (onMenuShow example_cfg example_host canvas_ev ready)) \<and>
   displayed (snd (onMenuShow (example_cfg\<lparr> itemTypes := [''canvas''] \<rparr>) example_host canvas_ev ready))"
  using canvas_display_iff [where s = ready and e = canvas_ev and cfg = example_cfg
      and h = example_host]
    canvas_display_iff [where s = ready and e = canvas_ev
      and cfg = "example_cfg\<lparr> itemTypes := [''canvas''] \<rparr>" and h = example_host]
  by (simp add: eval_ready truthy_def)

text \<open>
  C8. For a trigger event that carries an item identifier but no item type, the item-type
  filter lets the event pass whatever the configured item types are: the menu is displayed
  if and only if the display predicate holds of the event.
\<close>

theorem untyped_item_passes_filter:
  assumes "menu s \<noteq> None" and "truthy (itemId e)" and "\<not> truthy (itemType e)"
  shows "\<not> blockedByItemType (cfg\<lparr> itemTypes := ts \<rparr>) e \<and>
         (displayed (snd (onMenuShow (cfg\<lparr> itemTypes := ts \<rparr>) h e s)) \<longleftrightarrow> shouldBegin cfg e)"
  using assms
  by (auto simp: show_displayed blockedByItemType_def truthy_def split: option.splits)

theorem untyped_item_passes_filter_witness:
  "menu ready \<noteq> None \<and> truthy (itemId (node_a\<lparr> itemType := None \<rparr>)) \<and>
   \<not> truthy (itemType (node_a\<lparr> itemType := None \<rparr>)) \<and>
   displayed (snd (onMenuShow (example_cfg\<lparr> itemTypes := [] \<rparr>) example_host
                 (node_a\<lparr> itemType := None \<rparr>) ready))"
  using untyped_item_passes_filter
    [where s = ready and e = "node_a\<lparr> itemType := None \<rparr>" and cfg = example_cfg
       and ts = "[]" and h = example_host]
  by (simp add: eval_ready truthy_def)

text \<open>
  C5. For a show that passes the item-type filter and the display predicate, the overlay is
  placed at \<open>x = viewport_x + containerLeft + offsetX\<close> and
  \<open>y = viewport_y + containerTop + offsetY - 55\<close>, where \<open>x\<close> is decreased by
  \<open>overlayWidth + containerLeft + offsetX\<close> if \<open>x + overlayWidth\<close> exceeds the width of the
  graph, and \<open>y\<close> by \<open>overlayHeight + containerTop + offsetY\<close> if \<open>y + overlayHeight\<close>
  exceeds its height; otherwise they are unchanged. Here \<open>offsetX\<close> and \<open>offsetY\<close> are the
  configured offsets themselves whenever these are numbers below or above \<open>0\<close>, and \<open>0\<close>
  when the offset is \<open>0\<close>, is not configured or is no such number (\<^verbatim>\<open>NaN\<close>), as lines 165
  and 166 have it. The sums and differences are those of the number type, taken in the order
  of lines 169 to 177, whatever its arithmetic.
\<close>

theorem overlay_position:
  assumes "menu s \<noteq> None" and "\<not> blockedByItemType cfg e" and "shouldBegin cfg e"
    and "ox = (case offsetX cfg of None \<Rightarrow> 0 | Some r \<Rightarrow> if r < 0 \<or> 0 < r then r else 0)"
    and "oy = (case offsetY cfg of None \<Rightarrow> 0 | Some r \<Rightarrow> if r < 0 \<or> 0 < r then r else 0)"
    and "x = viewport_x e + offsetLeft h + ox"
    and "y = viewport_y e + offsetTop h + oy - number_literal 55"
  shows "map_option style_left (menu (snd (onMenuShow cfg h e s))) =
           Some (Some (if x + bbox_width h > graph_width h
                       then x - (bbox_width h + offsetLeft h + ox)
                       else x)) \<and>
         map_option style_top (menu (snd (onMenuShow cfg h e s))) =
           Some (if y + bbox_height h > graph_height h
                 then y - (bbox_height h + offsetTop h + oy)
                 else y) \<and>
         displayed (snd (onMenuShow cfg h e s))"
proof -
  have ox: "or_zero (offsetX cfg) = ox"
    using assms(4) by (rule or_zero_configured)
  have oy: "or_zero (offsetY cfg) = oy"
    using assms(5) by (rule or_zero_configured)
  note pos = show_position [OF assms(1-3), of h]
  have disp: "displayed (snd (onMenuShow cfg h e s))"
    using show_displayed [OF assms(1), of cfg h e] assms(2,3) by simp
  show ?thesis
    unfolding assms(6,7) using pos disp unfolding ox oy by blast
qed

theorem overlay_position_witness:
  "menu ready \<noteq> None \<and>
   \<not> blockedByItemType example_cfg node_a \<and> shouldBegin example_cfg node_a \<and>
   \<not> blockedByItemType example_cfg node_b \<and> shouldBegin example_cfg node_b \<and>
   (number_literal 55 :: real) = 55 \<and>
   map_option style_left (menu (snd (onMenuShow example_cfg example_host node_a ready))) =
     Some (Some 350) \<and>
   map_option style_top (menu (snd (onMenuShow example_cfg example_host node_a ready))) =
     Some 71 \<and>
   map_option style_left (menu (snd (onMenuShow example_cfg example_host node_b ready))) =
     Some (Some 46) \<and>
   map_option style_top (menu (snd (onMenuShow example_cfg example_host node_b ready))) =
     Some 395 \<and>
   map_option style_left (menu (snd (onMenuShow
       (example_cfg\<lparr> offsetX := Some 10, offsetY := Some (- 3) \<rparr>) example_host node_b ready))) =
     Some (Some 50) \<and>
   map_option style_top (menu (snd (onMenuShow
       (example_cfg\<lparr> offsetX := Some 10, offsetY := Some (- 3) \<rparr>) example_host node_b ready))) =
     Some 452 \<and>
   map_option style_left (menu (snd (onMenuShow
       (example_cfg\<lparr> offsetX := None, offsetY := None \<rparr>) example_host node_b ready))) =
     Some (Some 40) \<and>
   map_option style_top (menu (snd (onMenuShow
       (example_cfg\<lparr> offsetX := None, offsetY := None \<rparr>) example_host node_b ready))) =
     Some 455"
proof -
  let ?custom = "example_cfg\<lparr> offsetX := Some 10, offsetY := Some (- 3) \<rparr>"
  let ?bare = "example_cfg\<lparr> offsetX := None, offsetY := None \<rparr>"
  have host: "graph_width example_host = 500" "bbox_width example_host = 100"
    "graph_height example_host = 500" "bbox_height example_host = 40"
    "offsetLeft example_host = 10" "offsetTop example_host = 20"
    by (simp_all add: example_host_def)
  have pass_a: "\<not> blockedByItemType example_cfg node_a" "shouldBegin example_cfg node_a"
    by (simp_all add: eval_ready truthy_def blockedByItemType_def)
  have pass_b: "\<not> blockedByItemType example_cfg node_b" "shouldBegin example_cfg node_b"
    by (simp_all add: eval_ready truthy_def blockedByItemType_def)
  have pass_c: "\<not> blockedByItemType ?custom node_b" "shouldBegin ?custom node_b"
    by (simp_all add: eval_ready truthy_def blockedByItemType_def)
  have pass_d: "\<not> blockedByItemType ?bare node_b" "shouldBegin ?bare node_b"
    by (simp_all add: eval_ready truthy_def blockedByItemType_def)
  have off6: "(6::real) = (case offsetX example_cfg of None \<Rightarrow> 0 | Some r \<Rightarrow> if r < 0 \<or> 0 < r then r else 0)"
    "(6::real) = (case offsetY example_cfg of None \<Rightarrow> 0 | Some r \<Rightarrow> if r < 0 \<or> 0 < r then r else 0)"
    by (simp_all add: example_cfg_def)
  have offc: "(10::real) = (case offsetX ?custom of None \<Rightarrow> 0 | Some r \<Rightarrow> if r < 0 \<or> 0 < r then r else 0)"
    "(- 3::real) = (case offsetY ?custom of None \<Rightarrow> 0 | Some r \<Rightarrow> if r < 0 \<or> 0 < r then r else 0)"
    by (simp_all add: example_cfg_def)
  have offd: "(0::real) = (case offsetX ?bare of None \<Rightarrow> 0 | Some r \<Rightarrow> if r < 0 \<or> 0 < r then r else 0)"
    "(0::real) = (case offsetY ?bare of None \<Rightarrow> 0 | Some r \<Rightarrow> if r < 0 \<or> 0 < r then r else 0)"
    by (simp_all add: example_cfg_def)
  have lit: "(number_literal 55 :: real) = 55" by simp
  have xa: "(466::real) = viewport_x node_a + offsetLeft example_host + 6"
    and ya: "(71::real) = viewport_y node_a + offsetTop example_host + 6 - number_literal 55"
    and xb: "(46::real) = viewport_x node_b + offsetLeft example_host + 6"
    and yb: "(461::real) = viewport_y node_b + offsetTop example_host + 6 - number_literal 55"
    and xc: "(50::real) = viewport_x node_b + offsetLeft example_host + 10"
    and yc: "(452::real) = viewport_y node_b + offsetTop example_host + - 3 - number_literal 55"
    and xd: "(40::real) = viewport_x node_b + offsetLeft example_host + 0"
    and yd: "(455::real) = viewport_y node_b + offsetTop example_host + 0 - number_literal 55"
    by (simp_all add: host node_a_def node_b_def)
  have a: "map_option style_left (menu (snd (onMenuShow example_cfg example_host node_a ready)))
             = Some (Some 350)"
    "map_option style_top (menu (snd (onMenuShow example_cfg example_host node_a ready)))
             = Some 71"
    using overlay_position [OF ready_menu pass_a off6(1) off6(2) xa ya]
    by (simp_all add: host)
  have b: "map_option style_left (menu (snd (onMenuShow example_cfg example_host node_b ready)))
             = Some (Some 46)"
    "map_option style_top (menu (snd (onMenuShow example_cfg example_host node_b ready)))
             = Some 395"
    using overlay_position [OF ready_menu pass_b off6(1) off6(2) xb yb]
    by (simp_all add: host)
  have c: "map_option style_left (menu (snd (onMenuShow ?custom example_host node_b ready)))
             = Some (Some 50)"
    "map_option style_top (menu (snd (onMenuShow ?custom example_host node_b ready)))
             = Some 452"
    using overlay_position [OF ready_menu pass_c offc(1) offc(2) xc yc]
    by (simp_all add: host)
  have d: "map_option style_left (menu (snd (onMenuShow ?bare example_host node_b ready)))
             = Some (Some 40)"
    "map_option style_top (menu (snd (onMenuShow ?bare example_host node_b ready)))
             = Some 455"
    using overlay_position [OF ready_menu pass_d offd(1) offd(2) xd yd]
    by (simp_all add: host)
  show ?thesis
    using ready_menu pass_a pass_b lit a b c d by blast
qed

text \<open>
  C6, as stated, fails: two successive invocations of the show handler on the canvas, with
  item types that do not list \<^verbatim>\<open>'canvas'\<close>, leave no outside-click listener.
\<close>

theorem one_listener_after_two_shows_counterexample:
  "\<not> length (body_listeners
        (run example_cfg [Show example_host canvas_ev, Show example_host canvas_ev] ready)) = 1"
  by (simp add: eval_ready eval_ops)

text \<open>
  C6, amended. At every point in the lifetime of an initialised instance (after any
  sequence of trigger events, promise settlements, clicks and destroys) at most one
  outside-click listener attached by the instance is on \<^verbatim>\<open>document.body\<close>. After two
  successive invocations of the show handler exactly one is attached if the second passes
  the item-type filter and the display predicate and its content is not deferred; none is
  attached if the second is filtered out, refused by the predicate, or suspended on deferred
  content.
\<close>

theorem outside_click_listener_count:
  assumes "fst (init cfg h0 blank) = Returned"
  shows "length (body_listeners (run cfg acts (snd (init cfg h0 blank)))) \<le> 1 \<and>
         (\<not> blockedByItemType cfg e2 \<and> shouldBegin cfg e2 \<and> getContent cfg e2 \<noteq> Deferred \<longrightarrow>
            length (body_listeners
              (run cfg (acts @ [Show h1 e1, Show h2 e2]) (snd (init cfg h0 blank)))) = 1) \<and>
         (blockedByItemType cfg e2 \<or> \<not> shouldBegin cfg e2 \<or>
          fst (onMenuShow cfg h2 e2 (run cfg (acts @ [Show h1 e1]) (snd (init cfg h0 blank))))
            = Suspended \<longrightarrow>
            length (body_listeners
              (run cfg (acts @ [Show h1 e1, Show h2 e2]) (snd (init cfg h0 blank)))) = 0)"
proof -
  let ?s0 = "snd (init cfg h0 blank)"
  let ?s1 = "run cfg (acts @ [Show h1 e1]) ?s0"
  have t: "tracked (run cfg acts ?s0)" by (rule reachable_tracked)
  then have first: "length (body_listeners (run cfg acts ?s0)) \<le> 1"
    by (simp add: tracked_def)
  have t1: "tracked ?s1" by (rule reachable_tracked)
  have m1: "menu ?s1 \<noteq> None" using assms by (rule reachable_menu)
  have two: "run cfg (acts @ [Show h1 e1, Show h2 e2]) ?s0 = step cfg (Show h2 e2) ?s1"
    by (simp add: run_append)
  have body: "body_listeners (run cfg (acts @ [Show h1 e1, Show h2 e2]) ?s0)
                = body_listeners (snd (onMenuShow cfg h2 e2 ?s1))"
    unfolding two by (rule step_show_body)
  have one: "\<not> blockedByItemType cfg e2 \<and> shouldBegin cfg e2 \<and> getContent cfg e2 \<noteq> Deferred
               \<longrightarrow> length (body_listeners (snd (onMenuShow cfg h2 e2 ?s1))) = 1"
    using show_body_sync [OF t1 m1] by blast
  have none: "blockedByItemType cfg e2 \<or> \<not> shouldBegin cfg e2 \<or>
                fst (onMenuShow cfg h2 e2 ?s1) = Suspended
               \<longrightarrow> length (body_listeners (snd (onMenuShow cfg h2 e2 ?s1))) = 0"
    using show_body_blocked [OF t1 m1, of cfg e2 h2] show_suspended [OF t1 m1, of cfg h2 e2]
    by auto
  show ?thesis
    unfolding body using first one none by blast
qed

theorem outside_click_listener_count_witness:
  "fst (init example_cfg example_host blank) = Returned \<and>
   length (body_listeners (run example_cfg [BodyClick] (snd (init example_cfg example_host blank)))) \<le> 1 \<and>
   \<not> blockedByItemType example_cfg node_b \<and> shouldBegin example_cfg node_b \<and>
   getContent example_cfg node_b \<noteq> Deferred \<and>
   length (body_listeners
     (run example_cfg ([BodyClick] @ [Show example_host node_a, Show example_host node_b])
        (snd (init example_cfg example_host blank)))) = 1 \<and>
   blockedByItemType example_cfg canvas_ev \<and>
   length (body_listeners
     (run example_cfg ([BodyClick] @ [Show example_host node_a, Show example_host canvas_ev])
        (snd (init example_cfg example_host blank)))) = 0"
  using outside_click_listener_count [where cfg = example_cfg and ?h0.0 = example_host
      and acts = "[BodyClick]" and ?e2.0 = node_b and ?h1.0 = example_host and ?e1.0 = node_a
      and ?h2.0 = example_host]
    outside_click_listener_count [where cfg = example_cfg and ?h0.0 = example_host
      and acts = "[BodyClick]" and ?e2.0 = canvas_ev and ?h1.0 = example_host
      and ?e1.0 = node_a and ?h2.0 = example_host]
  by (simp add: eval_ready eval_ops)

text \<open>
  C7. When \<^verbatim>\<open>destroy()\<close> returns, on an initialised instance in any state it can have
  reached, the overlay was a child of the resolved container and is no longer one, and
  neither a click listener on the overlay nor an outside-click listener on
  \<^verbatim>\<open>document.body\<close> remains attached.
\<close>

theorem destroy_detaches:
  assumes "fst (init cfg h0 blank) = Returned"
    and "fst (destroy cfg h (run cfg acts (snd (init cfg h0 blank)))) = Returned"
  shows "map_option parentNode (menu (run cfg acts (snd (init cfg h0 blank))))
           = Some (resolveContainer cfg h) \<and>
         resolveContainer cfg h \<noteq> None \<and>
         map_option parentNode
           (menu (snd (destroy cfg h (run cfg acts (snd (init cfg h0 blank)))))) = Some None \<and>
         map_option click_listeners
           (menu (snd (destroy cfg h (run cfg acts (snd (init cfg h0 blank)))))) = Some [] \<and>
         body_listeners (snd (destroy cfg h (run cfg acts (snd (init cfg h0 blank))))) = []"
proof -
  let ?s = "run cfg acts (snd (init cfg h0 blank))"
  have t: "tracked ?s" by (rule reachable_tracked)
  have m: "menu ?s \<noteq> None" using assms(1) by (rule reachable_menu)
  from destroy_clean [OF t m assms(2)] show ?thesis by blast
qed

theorem destroy_detaches_witness:
  "fst (init example_cfg example_host blank) = Returned \<and>
   fst (destroy example_cfg example_host
          (run example_cfg [Show example_host node_a] (snd (init example_cfg example_host blank))))
     = Returned \<and>
   length (body_listeners
     (run example_cfg [Show example_host node_a] (snd (init example_cfg example_host blank)))) = 1 \<and>
   map_option parentNode
     (menu (run example_cfg [Show example_host node_a] (snd (init example_cfg example_host blank))))
     = Some (Some 7) \<and>
   map_option parentNode
     (menu (snd (destroy example_cfg example_host
        (run example_cfg [Show example_host node_a] (snd (init example_cfg example_host blank))))))
     = Some None \<and>
   body_listeners (snd (destroy example_cfg example_host
        (run example_cfg [Show example_host node_a] (snd (init example_cfg example_host blank)))))
     = []"
  using destroy_detaches [where cfg = example_cfg and ?h0.0 = example_host
      and h = example_host and acts = "[Show example_host node_a]"]
  by (simp add: eval_ready eval_ops)

text \<open>
  C9. The configured \<^verbatim>\<open>onHide\<close> callback is never invoked: the show handler (up to its
  suspension and after it), \<^verbatim>\<open>onMenuHide\<close> and \<^verbatim>\<open>destroy\<close> leave the number of its
  invocations unchanged, and so does every sequence of events; from initialisation on, the
  number is 0.
\<close>

theorem onHide_never_called:
  "count_list (calls (snd (onMenuShow cfg h e s))) OnHide = count_list (calls s) OnHide \<and>
   count_list (calls (snd (onMenuShow_resume cfg e v s))) OnHide = count_list (calls s) OnHide \<and>
   count_list (calls (snd (onMenuHide s))) OnHide = count_list (calls s) OnHide \<and>
   count_list (calls (snd (destroy cfg h s))) OnHide = count_list (calls s) OnHide \<and>
   count_list (calls (run cfg acts s)) OnHide = count_list (calls s) OnHide \<and>
   count_list (calls (run cfg acts (snd (init cfg h blank)))) OnHide = 0"
proof -
  have "calls (snd (init cfg h blank)) = []"
    by (simp add: init_def blank_def Let_def split: option.splits)
  then show ?thesis
    by (simp add: show_calls resume_calls destroy_calls run_calls)
qed

lemma show_cached:
  assumes "menu s \<noteq> None" and "\<not> blockedByItemType cfg e" and "shouldBegin cfg e"
    and "getContent cfg e = Deferred" and "itemId e = currentTarget s"
    and "asyncMenu s = Some v" and "truthy_markup (Some v)"
  shows "fst (onMenuShow cfg h e s) = Returned"
    and "calls (snd (onMenuShow cfg h e s)) =
           calls s @ (if preventDefault e then [PreventDefault] else []) @ [ShouldBegin, GetContent]"
    and "map_option innerHTML (menu (snd (onMenuShow cfg h e s))) = Some (html_of v)"
  using assms
  by (auto simp: onMenuShow_def Let_def case_prod_beta renderAsync_def)

theorem onHide_never_called_witness:
  "count_list (calls (run example_cfg
      [Show example_host node_a, OverlayClick, BodyClick, BodyClick, Destroy example_host]
      (snd (init example_cfg example_host blank)))) OnHide = 0 \<and>
   calls (run example_cfg
      [Show example_host node_a, OverlayClick, BodyClick, BodyClick, Destroy example_host]
      (snd (init example_cfg example_host blank)))
     = [PreventDefault, ShouldBegin, GetContent, HandleMenuClick (Some ''a'')] \<and>
   \<not> displayed (run example_cfg
      [Show example_host node_a, OverlayClick, BodyClick, BodyClick, Destroy example_host]
      (snd (init example_cfg example_host blank)))"
  using onHide_never_called [where cfg = example_cfg and h = example_host
      and acts = "[Show example_host node_a, OverlayClick, BodyClick, BodyClick,
                   Destroy example_host]"]
  by (simp add: eval_ready eval_ops displayed_def)

text \<open>
  C1, at a failing input. The content provider is deferred. The handler is triggered on
  item \<open>a\<close>, then on item \<open>b\<close>; the promise of \<open>b\<close> is fulfilled with \<open>B\<close>, then the
  promise of \<open>a\<close> with \<open>A\<close>. The invocation for \<open>a\<close> is stale and returns without touching
  the overlay, which shows \<open>B\<close>; but line 199 has already stored \<open>A\<close> in
  \<^verbatim>\<open>this.asyncMenu\<close>, and the next trigger on \<open>b\<close> injects \<open>A\<close> into the overlay.
  The same happens when every trigger is a click that then reaches \<^verbatim>\<open>document.body\<close>.
\<close>

theorem stale_result_rendered_by_later_show:
  "pending (run deferred_cfg
      [Show example_host node_a, Show example_host node_b, Resolve 1 (Str ''B'')] ready)
     = [node_a] \<and>
   itemId node_a \<noteq> currentTarget (run deferred_cfg
      [Show example_host node_a, Show example_host node_b, Resolve 1 (Str ''B'')] ready) \<and>
   map_option innerHTML (menu (run deferred_cfg
      [Show example_host node_a, Show example_host node_b, Resolve 1 (Str ''B''),
       Resolve 0 (Str ''A'')] ready)) = Some ''B'' \<and>
   asyncMenu (run deferred_cfg
      [Show example_host node_a, Show example_host node_b, Resolve 1 (Str ''B''),
       Resolve 0 (Str ''A'')] ready) = Some (Str ''A'') \<and>
   map_option innerHTML (menu (run deferred_cfg
      [Show example_host node_a, Show example_host node_b, Resolve 1 (Str ''B''),
       Resolve 0 (Str ''A''), Show example_host node_b] ready)) = Some ''A'' \<and>
   displayed (run deferred_cfg
      [Show example_host node_a, Show example_host node_b, Resolve 1 (Str ''B''),
       Resolve 0 (Str ''A''), Show example_host node_b] ready) \<and>
   map_option innerHTML (menu (run deferred_cfg
      [Show example_host node_a, BodyClick, Show example_host node_b, BodyClick,
       Resolve 1 (Str ''B''), Resolve 0 (Str ''A''), Show example_host node_b, BodyClick]
      ready)) = Some ''A'' \<and>
   displayed (run deferred_cfg
      [Show example_host node_a, BodyClick, Show example_host node_b, BodyClick,
       Resolve 1 (Str ''B''), Resolve 0 (Str ''A''), Show example_host node_b, BodyClick]
      ready)"
  by (simp add: eval_ready eval_ops displayed_def)

text \<open>
  C4, as stated, fails. After a first invocation on item \<open>a\<close> has cached its result, a
  second invocation on \<open>a\<close> brings the number of provider calls to 3, not 1; and two
  successive invocations that both find the cache filled add 2 calls, not 1.
\<close>

theorem provider_invoked_once_counterexample:
  "getContent deferred_cfg node_a = Deferred \<and>
   currentTarget (run deferred_cfg
      [Show example_host node_a, Resolve 0 (Str ''A''), Show example_host node_a] ready)
     = itemId node_a \<and>
   asyncMenu (run deferred_cfg
      [Show example_host node_a, Resolve 0 (Str ''A''), Show example_host node_a] ready)
     = Some (Str ''A'') \<and>
   \<not> count_list (calls (run deferred_cfg
      [Show example_host node_a, Resolve 0 (Str ''A''), Show example_host node_a] ready))
      GetContent = 1 \<and>
   \<not> count_list (calls (run deferred_cfg
      [Show example_host node_a, Resolve 0 (Str ''A''), Show example_host node_a,
       Show example_host node_a] ready)) GetContent =
     count_list (calls (run deferred_cfg
      [Show example_host node_a, Resolve 0 (Str ''A'')] ready)) GetContent + 1"
  by (simp add: eval_ready eval_ops)

text \<open>
  C4, amended. A show-handler invocation that passes the filters, whose content is deferred,
  whose target is the one on record and that finds a cached resolved result, invokes the
  content provider exactly once (the call on line 160 that obtains the content value): it
  does not call or await the provider again, and returns without suspending.
\<close>

theorem cached_show_invokes_provider_once:
  assumes "menu s \<noteq> None" and "\<not> blockedByItemType cfg e" and "shouldBegin cfg e"
    and "getContent cfg e = Deferred" and "itemId e = currentTarget s"
    and "asyncMenu s = Some v" and "truthy_markup (Some v)"
  shows "count_list (calls (snd (onMenuShow cfg h e s))) GetContent
           = count_list (calls s) GetContent + 1 \<and>
         fst (onMenuShow cfg h e s) = Returned"
  using show_cached [OF assms, of h] by simp

theorem cached_show_invokes_provider_once_witness:
  "menu (run deferred_cfg [Show example_host node_a, Resolve 0 (Str ''A'')] ready) \<noteq> None \<and>
   \<not> blockedByItemType deferred_cfg node_a \<and> shouldBegin deferred_cfg node_a \<and>
   getContent deferred_cfg node_a = Deferred \<and>
   itemId node_a
     = currentTarget (run deferred_cfg [Show example_host node_a, Resolve 0 (Str ''A'')] ready) \<and>
   asyncMenu (run deferred_cfg [Show example_host node_a, Resolve 0 (Str ''A'')] ready)
     = Some (Str ''A'') \<and>
   truthy_markup (Some (Str ''A'')) \<and>
   count_list (calls (snd (onMenuShow deferred_cfg example_host node_a
      (run deferred_cfg [Show example_host node_a, Resolve 0 (Str ''A'')] ready)))) GetContent
     = 3 \<and>
   fst (onMenuShow deferred_cfg example_host node_a
      (run deferred_cfg [Show example_host node_a, Resolve 0 (Str ''A'')] ready)) = Returned"
  using cached_show_invokes_provider_once [where cfg = deferred_cfg and e = node_a
      and s = "run deferred_cfg [Show example_host node_a, Resolve 0 (Str ''A'')] ready"
      and v = "Str ''A''" and h = example_host]
  by (simp add: eval_ready eval_ops)

text \<open>
  C10, as stated, fails. When the promise of the newer target \<open>b\<close> is fulfilled before the
  stale promise of \<open>a\<close>, the overlay shows the content of \<open>b\<close>, not the loading placeholder,
  when the stale invocation returns.
\<close>

theorem stale_discard_counterexample:
  "itemId node_a \<noteq> currentTarget (run deferred_cfg
      [Show example_host node_a, Show example_host node_b, Resolve 1 (Str ''B'')] ready) \<and>
   pending (run deferred_cfg
      [Show example_host node_a, Show example_host node_b, Resolve 1 (Str ''B'')] ready)
     = [node_a] \<and>
   \<not> map_option innerHTML (menu (run deferred_cfg
      [Show example_host node_a, Show example_host node_b, Resolve 1 (Str ''B''),
       Resolve 0 (Str ''A'')] ready)) = Some (html_of (loadingContent deferred_cfg))"
  by (simp add: eval_ready eval_ops)

text \<open>
  C10, amended. An invocation of the show handler that suspends on deferred content leaves,
  at its suspension, the overlay visible showing the loading placeholder, with no click
  listener on the overlay and no outside-click listener attached. When its result arrives
  stale (the target on record differs from its own), it returns without attaching a listener
  and leaves the overlay, the attached listeners and the listeners on record as the
  invocations in between have left them.
\<close>

theorem stale_discard_frame:
  assumes "fst (init cfg h0 blank) = Returned"
  shows "(fst (onMenuShow cfg h e (run cfg acts (snd (init cfg h0 blank)))) = Suspended \<longrightarrow>
            displayed (snd (onMenuShow cfg h e (run cfg acts (snd (init cfg h0 blank))))) \<and>
            map_option innerHTML
              (menu (snd (onMenuShow cfg h e (run cfg acts (snd (init cfg h0 blank))))))
              = Some (html_of (loadingContent cfg)) \<and>
            map_option click_listeners
              (menu (snd (onMenuShow cfg h e (run cfg acts (snd (init cfg h0 blank))))))
              = Some [] \<and>
            body_listeners (snd (onMenuShow cfg h e (run cfg acts (snd (init cfg h0 blank)))))
              = []) \<and>
         (itemId e \<noteq> currentTarget s \<longrightarrow>
            fst (onMenuShow_resume cfg e v s) = Returned \<and>
            menu (snd (onMenuShow_resume cfg e v s)) = menu s \<and>
            body_listeners (snd (onMenuShow_resume cfg e v s)) = body_listeners s \<and>
            handler (snd (onMenuShow_resume cfg e v s)) = handler s \<and>
            handleMenuClickWrapper (snd (onMenuShow_resume cfg e v s))
              = handleMenuClickWrapper s)"
proof -
  let ?s = "run cfg acts (snd (init cfg h0 blank))"
  have t: "tracked ?s" by (rule reachable_tracked)
  have m: "menu ?s \<noteq> None" using assms by (rule reachable_menu)
  have sync: "fst (onMenuShow cfg h e ?s) = Suspended \<longrightarrow>
      displayed (snd (onMenuShow cfg h e ?s)) \<and>
      map_option innerHTML (menu (snd (onMenuShow cfg h e ?s)))
        = Some (html_of (loadingContent cfg)) \<and>
      map_option click_listeners (menu (snd (onMenuShow cfg h e ?s))) = Some [] \<and>
      body_listeners (snd (onMenuShow cfg h e ?s)) = []"
    using show_suspended [OF t m, of cfg h e] by blast
  have late: "itemId e \<noteq> currentTarget s \<longrightarrow>
      fst (onMenuShow_resume cfg e v s) = Returned \<and>
      menu (snd (onMenuShow_resume cfg e v s)) = menu s \<and>
      body_listeners (snd (onMenuShow_resume cfg e v s)) = body_listeners s \<and>
      handler (snd (onMenuShow_resume cfg e v s)) = handler s \<and>
      handleMenuClickWrapper (snd (onMenuShow_resume cfg e v s)) = handleMenuClickWrapper s"
    by (simp add: onMenuShow_resume_def renderAsync_stale)
  from sync late show ?thesis by blast
qed

theorem stale_discard_frame_witness:
  "fst (init deferred_cfg example_host blank) = Returned \<and>
   fst (onMenuShow deferred_cfg example_host node_a
          (run deferred_cfg [] (snd (init deferred_cfg example_host blank)))) = Suspended \<and>
   displayed (snd (onMenuShow deferred_cfg example_host node_a
          (run deferred_cfg [] (snd (init deferred_cfg example_host blank))))) \<and>
   itemId node_a \<noteq> currentTarget
     (run deferred_cfg [Show example_host node_a, Show example_host node_b] ready) \<and>
   body_listeners (snd (onMenuShow_resume deferred_cfg node_a (Str ''A'')
     (run deferred_cfg [Show example_host node_a, Show example_host node_b] ready))) = [] \<and>
   map_option innerHTML (menu (snd (onMenuShow_resume deferred_cfg node_a (Str ''A'')
     (run deferred_cfg [Show example_host node_a, Show example_host node_b] ready))))
     = Some ''<div>loading</div>''"
  using stale_discard_frame [where cfg = deferred_cfg and ?h0.0 = example_host
      and h = example_host and e = node_a and acts = "[]" and v = "Str ''A''"
      and s = "run deferred_cfg [Show example_host node_a, Show example_host node_b] ready"]
  by (simp add: eval_ready eval_ops displayed_def)

end
